theory Spec2Isabelle
  imports Main "HOL-Library.Sublist"
begin

section \<open>The outside world: errors, files, collaborators\<close>

text \<open>
  The program \<^verbatim>\<open>dotgraph.py\<close> is a pipeline of conversions: a dot file is parsed into a
  graph (\<^verbatim>\<open>networkx.read_dot\<close>), projected to a node-link dictionary
  (\<^verbatim>\<open>json_graph.node_link_data\<close>), encoded as JSON (\<^verbatim>\<open>json.JSONEncoder().encode\<close>) and
  substituted into an HTML template with Python's \<^verbatim>\<open>%\<close> operator.

  Every exception of the source is a value \<open>Inl e\<close> of the model. \<open>Unmodelled\<close> is not a
  Python exception: it marks a format directive outside the fragment of the \<^verbatim>\<open>%\<close>
  operator that is modelled below, where the model does not say what Python does.
\<close>

datatype error =
    IOError
  | IndexError
  | KeyError string
  | ValueError string
  | LibraryError string
  | Unmodelled

text \<open>
  The file system as the program sees it. A path is a spelling: \<open>resolve\<close> gives the file
  it names (relative and absolute spellings and links of one file resolve alike).
  \<open>contents\<close> holds the text of each file that exists, \<open>readonly\<close> lists the files that
  cannot be opened for writing.
\<close>

record filesystem =
  resolve :: "string \<Rightarrow> string"
  contents :: "string \<rightharpoonup> string"
  readonly :: "string list"

text \<open>
  The three library calls are parameters of the model; each may raise. The parser is given
  the text of the file, the projector the graph, the encoder the dictionary.
\<close>

record ('g, 'd) collaborators =
  read_dot :: "string \<Rightarrow> error + 'g"
  node_link_data :: "'g \<Rightarrow> error + 'd"
  encode :: "'d \<Rightarrow> error + string"

section \<open>Python's string conversions\<close>

text \<open>\<^verbatim>\<open>str(n)\<close> of an integer: decimal digits, a minus sign for a negative one.\<close>

definition digit_char :: "nat \<Rightarrow> char" where
  "digit_char d = char_of (48 + d)"

fun str_nat :: "nat \<Rightarrow> string" where
  "str_nat n = (if n < 10 then [digit_char n] else str_nat (n div 10) @ [digit_char (n mod 10)])"

declare str_nat.simps [simp del]

definition str_int :: "int \<Rightarrow> string" where
  "str_int i = (if i < 0 then CHR ''-'' # str_nat (nat (- i)) else str_nat (nat i))"

text \<open>
  \<^verbatim>\<open>fmt % mapping\<close>, for a mapping from strings to strings. A mapping key \<^verbatim>\<open>%(key)\<close> runs
  to the parenthesis that closes it (nested parentheses are counted, \<open>pcount\<close> starting
  at 1); the key is looked up as soon as it is read. Modelled: literal text, \<^verbatim>\<open>%%\<close>, and
  \<^verbatim>\<open>%(key)s\<close>. Flags, widths, precisions, other conversions and directives without a key
  give \<open>Unmodelled\<close>.
\<close>

fun format_key :: "nat \<Rightarrow> string \<Rightarrow> (string \<times> string) option" where
  "format_key pcount [] = None"
| "format_key pcount (c # fmt) =
     (let pcount' = (if c = CHR '')'' then pcount - 1
                     else if c = CHR ''('' then pcount + 1 else pcount)
      in if pcount' = 0 then Some ([], fmt)
         else (case format_key pcount' fmt of
                 None \<Rightarrow> None
               | Some (key, rest) \<Rightarrow> Some (c # key, rest)))"

definition emit :: "string \<Rightarrow> error + string \<Rightarrow> error + string" where
  "emit s r = (case r of Inl e \<Rightarrow> Inl e | Inr out \<Rightarrow> Inr (s @ out))"

lemma format_key_shorter: "format_key pcount fmt = Some (key, rest) \<Longrightarrow> length rest < length fmt"
proof (induction fmt arbitrary: pcount key)
  case Nil
  then show ?case by simp
next
  case (Cons c fmt)
  then show ?case
    by (fastforce simp: Let_def split: if_splits option.splits)
qed

function format :: "string \<Rightarrow> (string \<times> string) list \<Rightarrow> error + string" where
  "format [] args = Inr []"
| "format (c # fmt) args =
     (if c \<noteq> CHR ''%'' then emit [c] (format fmt args)
      else (case fmt of
              [] \<Rightarrow> Inl (ValueError ''incomplete format'')
            | c' # fmt' \<Rightarrow>
                if c' = CHR ''%'' then emit ''%'' (format fmt' args)
                else if c' = CHR ''('' then
                  (case format_key 1 fmt' of
                     None \<Rightarrow> Inl (ValueError ''incomplete format key'')
                   | Some (key, rest) \<Rightarrow>
                       (case map_of args key of
                          None \<Rightarrow> Inl (KeyError key)
                        | Some v \<Rightarrow>
                            (case rest of
                               [] \<Rightarrow> Inl (ValueError ''incomplete format'')
                             | c'' # rest' \<Rightarrow>
                                 if c'' = CHR ''s'' then emit v (format rest' args)
                                 else Inl Unmodelled)))
                else Inl Unmodelled))"
  by pat_completeness auto
termination
  by (relation "measure (\<lambda>(fmt, args). length fmt)") (auto dest: format_key_shorter)

section \<open>The class DotGraph\<close>

text \<open>The class attribute \<^verbatim>\<open>_template\<close>, character for character.\<close>

definition default_template :: string where
  \<open>default_template = ''
    <div id="%(uniqueID)s"></div>
    <style>
    .node {
        stroke-width: 1.5px;
    }
    .node text {
        color: black;
        font: 10px sans-serif;
    }
    .link {
        fill: none;
        stroke: #bbb;
    }
    </style>

    <script>
    var graph = %(JSONData)s;
    
    require.config({paths: {d3: "https://d3js.org/d3.v3.min"}});
    
    require(["d3"], function(d3) {
    
        var width = 1000, height = 450;
        var rwidth = 150, rheight=20;
        var rr = 10;
        var color = d3.scale.category10();
        var domain = [0, 1, 2, 3];
        color.domain(domain);
        
        var force = d3.layout.force()
            .charge(-200)
            .linkDistance(50)
            .linkStrength(2)
            .size([width, height]);
            
        var svg = d3.select("#%(uniqueID)s").select("svg");
        
        if (svg.empty()) {
            svg = d3.select("#%(uniqueID)s").append("svg")
                        .attr("width", width)
                        .attr("height", height);
        }
        
        var nodes = graph.nodes.slice(),
        links = [],
        bilinks = [];
      
        graph.links.forEach(function(link) {
            var s = nodes[link.source],
            t = nodes[link.target],
            i = {}; // intermediate node
            nodes.push(i);
            links.push({source: s, target: i}, {source: i, target: t});
            bilinks.push([s, i, t]);
        });
        
        force.nodes(nodes)
            .links(links)
            .start();
            
        var link = svg.selectAll(".link")
            .data(bilinks)
            .enter().append("path")
            .attr("class", "link");
            
        var node = svg.selectAll(".node")
            .data(graph.nodes)
            .enter().append("g")
            .attr("class", "node")
            .call(force.drag);
            
        node.append("rect")
            .attr("x", -rwidth/2)
            .attr("y", -rheight/2)
            .attr("width", rwidth)
            .attr("height", rheight)
            .attr("rx", rr)
            .attr("ry", rr)
            .style("fill", "white")
            .style("stroke", "black");
        
        node.append("text")
            .attr("dx", 0)
            .attr("dy", 3)
            .attr("text-anchor", "middle")
            .text(function(d) { return d.label; });
            
        node.append("title")
            .text(function(d) { return d.label; });
            
        force.on("tick", function() {
            link.attr("d", function(d) {
                return "M" + d[0].x + "," + d[0].y + "S" + d[1].x + "," + d[1].y + " " + d[2].x + "," + d[2].y;
            });
            
            node.attr("transform", function(d) { return "translate(" + d.x + "," + d.y + ")"; });
        });
    });
    </script>
    ''\<close>


text \<open>
  The class object holds \<^verbatim>\<open>_template\<close>; an instance holds what \<^verbatim>\<open>__init__\<close> and the
  \<^verbatim>\<open>json\<close> property store in its \<^verbatim>\<open>__dict__\<close>: \<^verbatim>\<open>_template\<close> (only when a template was
  passed), \<^verbatim>\<open>infile\<close>, and \<^verbatim>\<open>_jenc\<close> (only after the first access to \<^verbatim>\<open>json\<close>).
\<close>

text \<open>
  Every encoder is made by \<^verbatim>\<open>json.JSONEncoder()\<close> with the default options, so two encoders
  differ in identity only; the number is the identity of the object.
\<close>

datatype JSONEncoder = JSONEncoder nat

record DotGraph_class =
  cls_template :: string

definition DotGraph_cls :: DotGraph_class where
  "DotGraph_cls = \<lparr>cls_template = default_template\<rparr>"

record DotGraph =
  own_template :: "string option"
  infile :: string
  jenc :: "JSONEncoder option"

definition DotGraph_init :: "string \<Rightarrow> string option \<Rightarrow> DotGraph" where
  "DotGraph_init inpath template =
     \<lparr>own_template = (case template of None \<Rightarrow> None | Some t \<Rightarrow> Some t),
      infile = inpath,
      jenc = None\<rparr>"

text \<open>\<^verbatim>\<open>self._template\<close>: the instance attribute when there is one, else the class attribute.\<close>

definition template_of :: "DotGraph_class \<Rightarrow> DotGraph \<Rightarrow> string" where
  "template_of cls self = (case own_template self of Some t \<Rightarrow> t | None \<Rightarrow> cls_template cls)"

text \<open>
  The four properties. \<^verbatim>\<open>graph\<close> opens the path on every access: a path that names no
  file raises, otherwise the parser decides. \<^verbatim>\<open>json\<close> takes \<open>new\<close>, the object that
  \<^verbatim>\<open>json.JSONEncoder()\<close> returns when it is called in that access; it stores the encoder
  before it reads \<^verbatim>\<open>self.dict\<close>, so it returns the instance as well. \<^verbatim>\<open>html\<close> takes
  \<open>h\<close>, the value of \<^verbatim>\<open>hash(time.time())\<close> read in that call.
\<close>

definition graph :: "('g, 'd) collaborators \<Rightarrow> filesystem \<Rightarrow> DotGraph \<Rightarrow> error + 'g" where
  "graph lib fs self =
     (case contents fs (resolve fs (infile self)) of
        None \<Rightarrow> Inl IOError
      | Some text \<Rightarrow> read_dot lib text)"

definition dict :: "('g, 'd) collaborators \<Rightarrow> filesystem \<Rightarrow> DotGraph \<Rightarrow> error + 'd" where
  "dict lib fs self =
     (case graph lib fs self of
        Inl e \<Rightarrow> Inl e
      | Inr g \<Rightarrow> node_link_data lib g)"

definition json ::
  "('g, 'd) collaborators \<Rightarrow> filesystem \<Rightarrow> JSONEncoder \<Rightarrow> DotGraph
     \<Rightarrow> (error + string) \<times> DotGraph" where
  "json lib fs new self =
     (let self' = (if jenc self = None then self\<lparr>jenc := Some new\<rparr> else self)
      in (case dict lib fs self' of
            Inl e \<Rightarrow> Inl e
          | Inr d \<Rightarrow> encode lib d,
          self'))"

definition formatDict ::
  "('g, 'd) collaborators \<Rightarrow> filesystem \<Rightarrow> int \<Rightarrow> JSONEncoder \<Rightarrow> DotGraph
     \<Rightarrow> (error + (string \<times> string) list) \<times> DotGraph" where
  "formatDict lib fs h new self =
     (let uid = ''Graph'' @ str_int h;
          (j, self') = json lib fs new self
      in (case j of
            Inl e \<Rightarrow> Inl e
          | Inr text \<Rightarrow> Inr [(''uniqueID'', uid), (''JSONData'', text)],
          self'))"

definition html ::
  "('g, 'd) collaborators \<Rightarrow> DotGraph_class \<Rightarrow> filesystem \<Rightarrow> int \<Rightarrow> JSONEncoder \<Rightarrow> DotGraph
     \<Rightarrow> (error + string) \<times> DotGraph" where
  "html lib cls fs h new self =
     (let (fd, self') = formatDict lib fs h new self
      in (case fd of
            Inl e \<Rightarrow> Inl e
          | Inr args \<Rightarrow> format (template_of cls self') args,
          self'))"

section \<open>Objects in a heap\<close>

text \<open>
  \<^verbatim>\<open>DotGraph(infile, template)\<close> allocates a new object and runs \<^verbatim>\<open>__init__\<close> on it. The
  heap holds the class object and the instances made so far; the call returns the address
  of the new instance.
\<close>

record heap =
  class_obj :: DotGraph_class
  objects :: "DotGraph list"

definition construct :: "heap \<Rightarrow> string \<Rightarrow> string option \<Rightarrow> nat \<times> heap" where
  "construct hp inpath template =
     (length (objects hp), hp\<lparr>objects := objects hp @ [DotGraph_init inpath template]\<rparr>)"

section \<open>The command line\<close>

text \<open>
  \<^verbatim>\<open>open(outfile, 'w')\<close> creates the file that the path names, or empties it, unless it
  cannot be opened; \<^verbatim>\<open>fp.write\<close> appends to what the file holds. An exception nobody
  catches ends the process with status 1.
\<close>

definition open_w :: "filesystem \<Rightarrow> string \<Rightarrow> error + filesystem" where
  "open_w fs path =
     (if resolve fs path \<in> set (readonly fs) then Inl IOError
      else Inr (fs\<lparr>contents := (contents fs)(resolve fs path \<mapsto> [])\<rparr>))"

definition fp_write :: "filesystem \<Rightarrow> string \<Rightarrow> string \<Rightarrow> filesystem" where
  "fp_write fs path text =
     fs\<lparr>contents := (contents fs)(resolve fs path \<mapsto>
           (case contents fs (resolve fs path) of None \<Rightarrow> text | Some old \<Rightarrow> old @ text))\<rparr>"

record process =
  exit_status :: nat
  files :: filesystem
  stdout :: string

definition main ::
  "('g, 'd) collaborators \<Rightarrow> int \<Rightarrow> JSONEncoder \<Rightarrow> filesystem \<Rightarrow> string \<Rightarrow> string list
     \<Rightarrow> process" where
  "main lib h new fs out argv =
     (if length argv < 2 then \<lparr>exit_status = 1, files = fs, stdout = out\<rparr>
      else
        let inpath = argv ! 1;
            dg = DotGraph_init inpath None
        in if length argv > 2 then
             (let outfile = argv ! 2
              in case open_w fs outfile of
                   Inl e \<Rightarrow> \<lparr>exit_status = 1, files = fs, stdout = out\<rparr>
                 | Inr fs' \<Rightarrow>
                     (case fst (html lib DotGraph_cls fs' h new dg) of
                        Inl e \<Rightarrow> \<lparr>exit_status = 1, files = fs', stdout = out\<rparr>
                      | Inr text \<Rightarrow>
                          \<lparr>exit_status = 0, files = fp_write fs' outfile text, stdout = out\<rparr>))
           else
             (case fst (html lib DotGraph_cls fs h new dg) of
                Inl e \<Rightarrow> \<lparr>exit_status = 1, files = fs, stdout = out\<rparr>
              | Inr text \<Rightarrow> \<lparr>exit_status = 0, files = fs, stdout = out @ text\<rparr>))"

section \<open>Templates made of literal text, escaped percent signs and the two placeholders\<close>

text \<open>
  A template in which every \<^verbatim>\<open>%\<close> belongs to \<^verbatim>\<open>%(uniqueID)s\<close>, to \<^verbatim>\<open>%(JSONData)s\<close> or to
  the escape \<^verbatim>\<open>%%\<close> is a sequence of pieces, the literal ones free of \<^verbatim>\<open>%\<close>.
  \<open>template_text\<close> is the template as it is written, \<open>substituted\<close> what the substitution
  of an identifier and a JSON text should give.
\<close>

datatype piece = Lit string | Percent | UniqueID | JSONData

fun piece_text :: "piece \<Rightarrow> string" where
  "piece_text (Lit s) = s"
| "piece_text Percent = ''%%''"
| "piece_text UniqueID = ''%(uniqueID)s''"
| "piece_text JSONData = ''%(JSONData)s''"

fun piece_value :: "string \<Rightarrow> string \<Rightarrow> piece \<Rightarrow> string" where
  "piece_value uid j (Lit s) = s"
| "piece_value uid j Percent = ''%''"
| "piece_value uid j UniqueID = uid"
| "piece_value uid j JSONData = j"

fun plain :: "piece \<Rightarrow> bool" where
  "plain (Lit s) = (CHR ''%'' \<notin> set s)"
| "plain Percent = True"
| "plain UniqueID = True"
| "plain JSONData = True"

definition template_text :: "piece list \<Rightarrow> string" where
  "template_text ps = concat (map piece_text ps)"

definition substituted :: "string \<Rightarrow> string \<Rightarrow> piece list \<Rightarrow> string" where
  "substituted uid j ps = concat (map (piece_value uid j) ps)"

section \<open>A stand-in for the libraries\<close>

text \<open>
  Theorems are instantiated at concrete inputs with this stand-in for the three
  libraries: the graph of a text is the text, and its JSON a one-field object. In the
  sample file system a leading \<^verbatim>\<open>./\<close> does not change the file a path names, and the one
  file is \<^verbatim>\<open>g.dot\<close>.
\<close>

fun strip_dot_slash :: "string \<Rightarrow> string" where
  "strip_dot_slash (c # d # p) =
     (if c = CHR ''.'' \<and> d = CHR ''/'' then strip_dot_slash p else c # d # p)"
| "strip_dot_slash p = p"

definition sample_lib :: "(string, string) collaborators" where
  \<open>sample_lib =
     \<lparr>read_dot = Inr,
      node_link_data = Inr,
      encode = (\<lambda>d. Inr (''{"dot": "'' @ d @ ''"}''))\<rparr>\<close>

definition sample_fs :: filesystem where
  "sample_fs =
     \<lparr>resolve = strip_dot_slash,
      contents = [''g.dot'' \<mapsto> ''digraph { A -> B; }''],
      readonly = []\<rparr>"


section \<open>Facts about the string conversions\<close>

lemma digit_char_inj: "a < 10 \<Longrightarrow> b < 10 \<Longrightarrow> digit_char a = digit_char b \<Longrightarrow> a = b"
  by (simp add: digit_char_def char_of_eq_iff take_bit_eq_mod)

lemma str_nat_not_Nil: "str_nat n \<noteq> []"
  by (subst str_nat.simps) simp

lemma str_nat_inj: "str_nat n = str_nat m \<Longrightarrow> n = m"
proof (induction n arbitrary: m rule: str_nat.induct)
  case (1 n)
  show ?case
  proof (cases "n < 10")
    case True
    show ?thesis
    proof (cases "m < 10")
      case mlt: True
      from "1.prems" True mlt have "digit_char n = digit_char m"
        by (simp add: str_nat.simps [of n] str_nat.simps [of m])
      with True mlt show ?thesis by (rule digit_char_inj)
    next
      case False
      with "1.prems" True str_nat_not_Nil [of "m div 10"] show ?thesis
        by (simp add: str_nat.simps [of n] str_nat.simps [of m])
    qed
  next
    case False
    show ?thesis
    proof (cases "m < 10")
      case True
      with "1.prems" False str_nat_not_Nil [of "n div 10"] show ?thesis
        by (simp add: str_nat.simps [of n] str_nat.simps [of m])
    next
      case mge: False
      from "1.prems" False mge
      have eq: "str_nat (n div 10) = str_nat (m div 10)" "digit_char (n mod 10) = digit_char (m mod 10)"
        by (simp_all add: str_nat.simps [of n] str_nat.simps [of m])
      from "1.IH" [OF False eq(1)] have "n div 10 = m div 10" .
      moreover from eq(2) have "n mod 10 = m mod 10"
        by (intro digit_char_inj) simp_all
      ultimately show ?thesis by (metis div_mult_mod_eq)
    qed
  qed
qed

lemma digit_char_not_minus: "d < 10 \<Longrightarrow> digit_char d \<noteq> CHR ''-''"
  by (simp add: digit_char_def char_of_eq_iff take_bit_eq_mod)

lemma hd_str_nat_not_minus: "hd (str_nat n) \<noteq> CHR ''-''"
proof (induction n rule: str_nat.induct)
  case (1 n)
  show ?case
  proof (cases "n < 10")
    case True
    then show ?thesis by (simp add: str_nat.simps [of n] digit_char_not_minus)
  next
    case False
    with "1.IH" str_nat_not_Nil [of "n div 10"] show ?thesis
      by (simp add: str_nat.simps [of n])
  qed
qed

lemma str_int_inj: "str_int a = str_int b \<Longrightarrow> a = b"
proof -
  assume eq: "str_int a = str_int b"
  have neg_pos: False if "x < 0" "\<not> y < 0" "str_int x = str_int y" for x y
  proof -
    from that have "CHR ''-'' = hd (str_nat (nat y))" 
      by (simp add: str_int_def) (metis list.sel(1))
    with hd_str_nat_not_minus [of "nat y"] show False by simp
  qed
  show ?thesis
  proof (cases "a < 0")
    case True
    show ?thesis
    proof (cases "b < 0")
      case bneg: True
      with True eq have "str_nat (nat (- a)) = str_nat (nat (- b))" by (simp add: str_int_def)
      then have "nat (- a) = nat (- b)" by (rule str_nat_inj)
      with True bneg show ?thesis by simp
    next
      case False
      with True eq neg_pos show ?thesis by blast
    qed
  next
    case False
    show ?thesis
    proof (cases "b < 0")
      case True
      with False eq neg_pos [of b a] show ?thesis by simp
    next
      case bpos: False
      with False eq have "str_nat (nat a) = str_nat (nat b)" by (simp add: str_int_def)
      then have "nat a = nat b" by (rule str_nat_inj)
      with False bpos show ?thesis by simp
    qed
  qed
qed

section \<open>Formatting a template of literal text and placeholders\<close>

lemma emit_emit: "emit s (emit t r) = emit (s @ t) r"
  by (cases r) (simp_all add: emit_def)

lemma emit_Nil: "emit [] r = r"
  by (cases r) (simp_all add: emit_def)

lemma format_literal:
  "CHR ''%'' \<notin> set s \<Longrightarrow> format (s @ fmt) args = emit s (format fmt args)"
proof (induction s)
  case Nil
  show ?case by (simp add: emit_Nil)
next
  case (Cons c s)
  then show ?case by (auto simp: emit_emit)
qed

lemma format_uniqueID:
  "format (''%(uniqueID)s'' @ fmt) [(''uniqueID'', uid), (''JSONData'', j)]
     = emit uid (format fmt [(''uniqueID'', uid), (''JSONData'', j)])"
  by simp

lemma format_JSONData:
  "format (''%(JSONData)s'' @ fmt) [(''uniqueID'', uid), (''JSONData'', j)]
     = emit j (format fmt [(''uniqueID'', uid), (''JSONData'', j)])"
  by simp

lemma format_pieces:
  "list_all plain ps \<Longrightarrow>
     format (template_text ps) [(''uniqueID'', uid), (''JSONData'', j)]
       = Inr (substituted uid j ps)"
proof (induction ps)
  case Nil
  show ?case by (simp add: template_text_def substituted_def)
next
  case (Cons p ps)
  then have IH: "format (template_text ps) [(''uniqueID'', uid), (''JSONData'', j)]
       = Inr (substituted uid j ps)" by simp
  show ?case
  proof (cases p)
    case (Lit s)
    with Cons.prems have "CHR ''%'' \<notin> set s" by simp
    then show ?thesis using IH Lit
      by (simp add: template_text_def substituted_def format_literal emit_def)
  next
    case Percent
    then show ?thesis using IH
      by (simp add: template_text_def substituted_def emit_def)
  next
    case UniqueID
    then show ?thesis using IH format_uniqueID [of "template_text ps" uid j]
      by (simp add: template_text_def substituted_def emit_def)
  next
    case JSONData
    then show ?thesis using IH format_JSONData [of "template_text ps" uid j]
      by (simp add: template_text_def substituted_def emit_def)
  qed
qed

lemma substituted_append:
  "substituted uid j (ps @ qs) = substituted uid j ps @ substituted uid j qs"
  by (simp add: substituted_def)

lemma sublist_substituted:
  assumes "JSONData \<in> set ps"
  shows "sublist j (substituted uid j ps)"
proof -
  from assms obtain xs ys where "ps = xs @ JSONData # ys"
    by (auto simp: in_set_conv_decomp)
  then have "substituted uid j ps = substituted uid j xs @ j @ substituted uid j ys"
    by (simp add: substituted_def)
  then show ?thesis
    by (simp only: sublist_appendI)
qed

section \<open>The properties unfolded\<close>

lemma dict_jenc: "dict lib fs (self\<lparr>jenc := e\<rparr>) = dict lib fs self"
  by (simp add: dict_def graph_def)

lemma json_fst:
  "fst (json lib fs new self) = (case dict lib fs self of Inl e \<Rightarrow> Inl e | Inr d \<Rightarrow> encode lib d)"
  by (simp add: json_def Let_def dict_jenc)

lemma json_snd:
  "snd (json lib fs new self) = self\<lparr>jenc := Some (case jenc self of None \<Rightarrow> new | Some e \<Rightarrow> e)\<rparr>"
  by (cases "jenc self") (simp_all add: json_def Let_def)

lemma template_of_jenc: "template_of cls (self\<lparr>jenc := e\<rparr>) = template_of cls self"
  by (simp add: template_of_def)

lemma html_fst:
  "fst (html lib cls fs h new self) =
     (case fst (json lib fs new self) of
        Inl e \<Rightarrow> Inl e
      | Inr j \<Rightarrow> format (template_of cls self) [(''uniqueID'', ''Graph'' @ str_int h), (''JSONData'', j)])"
proof -
  obtain r self' where js: "json lib fs new self = (r, self')"
    by (cases "json lib fs new self")
  from js json_snd [of lib fs new self] have "template_of cls self' = template_of cls self"
    by (simp add: template_of_jenc)
  with js show ?thesis
    by (simp add: html_def formatDict_def Let_def split: sum.splits)
qed

lemma html_snd: "snd (html lib cls fs h new self) = snd (json lib fs new self)"
  by (simp add: html_def formatDict_def Let_def split: prod.splits sum.splits)

lemma formatDict_snd: "snd (formatDict lib fs h new self) = snd (json lib fs new self)"
  by (simp add: formatDict_def Let_def split: prod.splits)

lemma formatDict_fst:
  "fst (formatDict lib fs h new self) =
     (case fst (json lib fs new self) of
        Inl e \<Rightarrow> Inl e
      | Inr j \<Rightarrow> Inr [(''uniqueID'', ''Graph'' @ str_int h), (''JSONData'', j)])"
  by (cases "json lib fs new self") (simp add: formatDict_def Let_def split: sum.splits)

lemma template_of_init:
  "template_of cls (DotGraph_init p (Some t)) = t"
  "template_of cls (DotGraph_init p None) = cls_template cls"
  by (simp_all add: template_of_def DotGraph_init_def)

lemma html_missing_input:
  "contents fs (resolve fs (infile self)) = None \<Longrightarrow> fst (html lib cls fs h new self) = Inl IOError"
  by (simp add: html_fst json_fst dict_def graph_def)

text \<open>
  When the output path names the file that the input path names, opening it for writing
  creates the input: the parser is then given the empty text.
\<close>

lemma graph_after_open_w_alias:
  assumes "open_w fs outfile = Inr fs'"
    and "resolve fs outfile = resolve fs inpath"
  shows "graph lib fs' (DotGraph_init inpath t) = read_dot lib []"
  using assms by (auto simp: open_w_def graph_def DotGraph_init_def split: if_splits)

section \<open>The default template\<close>

text \<open>
  The class template is literal text around four placeholders: \<^verbatim>\<open>uniqueID\<close> at offsets
  14, 820 and 916, \<^verbatim>\<open>JSONData\<close> at offset 273, each twelve characters long.
\<close>

lemma default_template_pieces:
  "default_template = template_text
     [Lit (take 14 default_template), UniqueID,
      Lit (take 247 (drop 26 default_template)), JSONData,
      Lit (take 535 (drop 285 default_template)), UniqueID,
      Lit (take 84 (drop 832 default_template)), UniqueID,
      Lit (drop 928 default_template)]"
  by (simp add: template_text_def default_template_def)

lemma default_literals_plain:
  "list_all plain
     [Lit (take 14 default_template), UniqueID,
      Lit (take 247 (drop 26 default_template)), JSONData,
      Lit (take 535 (drop 285 default_template)), UniqueID,
      Lit (take 84 (drop 832 default_template)), UniqueID,
      Lit (drop 928 default_template)]"
  by (simp add: default_template_def)

lemma format_default_template:
  "format default_template [(''uniqueID'', uid), (''JSONData'', j)] =
     Inr (take 14 default_template @ uid @ take 247 (drop 26 default_template) @ j
          @ take 535 (drop 285 default_template) @ uid
          @ take 84 (drop 832 default_template) @ uid @ drop 928 default_template)"
proof -
  let ?ps = "[Lit (take 14 default_template), UniqueID,
      Lit (take 247 (drop 26 default_template)), JSONData,
      Lit (take 535 (drop 285 default_template)), UniqueID,
      Lit (take 84 (drop 832 default_template)), UniqueID,
      Lit (drop 928 default_template)]"
  let ?args = "[(''uniqueID'', uid), (''JSONData'', j)]"
  have "format default_template ?args = format (template_text ?ps) ?args"
    by (rule arg_cong [where f = "\<lambda>t. format t ?args"]) (rule default_template_pieces)
  also have "\<dots> = Inr (substituted uid j ?ps)"
    by (rule format_pieces [OF default_literals_plain])
  finally show ?thesis by (simp add: substituted_def)
qed

lemma script_before: \<open>take 247 (drop 26 default_template)
   = take 222 (drop 26 default_template) @ ''<script>\<newline>    var graph = ''\<close>
  by (simp add: default_template_def)

lemma script_after: \<open>take 535 (drop 285 default_template)
   = '';'' @ take 534 (drop 286 default_template)\<close>
  by (simp add: default_template_def)

section \<open>The stand-in at work\<close>

lemma sample_json:
  \<open>fst (json sample_lib sample_fs new (DotGraph_init ''g.dot'' t)) = Inr ''{"dot": "digraph { A -> B; }"}''\<close>
  by (simp add: json_fst dict_def graph_def DotGraph_init_def sample_lib_def sample_fs_def)


lemma str_int_42: "str_int 42 = ''42''"
  by code_simp

section \<open>Construction\<close>

text \<open>
  C7. Construction stores the path; a template that is passed becomes the template of
  this instance, and without one the class template stays in force. \<^verbatim>\<open>__init__\<close> takes no
  file system and has no error branch: it reads no file and checks no path. For a path
  that names no file the instance is built all the same, and it is the first access to
  \<^verbatim>\<open>graph\<close> that raises.
\<close>

theorem DotGraph_init_stores:
  "infile (DotGraph_init p t) = p
   \<and> own_template (DotGraph_init p t) = t
   \<and> jenc (DotGraph_init p t) = None
   \<and> template_of cls (DotGraph_init p (Some t')) = t'
   \<and> template_of cls (DotGraph_init p None) = cls_template cls
   \<and> graph lib (fs\<lparr>contents := (contents fs)(resolve fs p := None)\<rparr>) (DotGraph_init p t)
       = Inl IOError"
  by (cases t) (simp_all add: DotGraph_init_def template_of_def graph_def)

text \<open>
  C10. A template passed to the constructor is stored in the new instance and nowhere
  else. Starting from any heap whose class object holds the default template, build an
  instance without a template, one with the template \<open>t\<close>, and a third without: the
  class object is the same after each call, the instances that were there are untouched,
  and the first and the third instance still render with the default template.
\<close>

theorem template_override_is_per_instance:
  "(let hp0 = \<lparr>class_obj = DotGraph_cls, objects = objs\<rparr>;
        (a, hp1) = construct hp0 p1 None;
        (b, hp2) = construct hp1 p2 (Some t);
        (c, hp3) = construct hp2 p3 None
    in class_obj hp2 = DotGraph_cls
       \<and> class_obj hp3 = DotGraph_cls
       \<and> cls_template (class_obj hp3) = default_template
       \<and> take (length objs) (objects hp3) = objs
       \<and> objects hp3 ! a = DotGraph_init p1 None
       \<and> objects hp3 ! b = DotGraph_init p2 (Some t)
       \<and> objects hp3 ! c = DotGraph_init p3 None
       \<and> template_of (class_obj hp3) (objects hp3 ! b) = t
       \<and> template_of (class_obj hp3) (objects hp3 ! a) = default_template
       \<and> template_of (class_obj hp3) (objects hp3 ! c) = default_template
       \<and> fst (html lib (class_obj hp3) fs h new (objects hp3 ! a)) =
           (case fst (json lib fs new (DotGraph_init p1 None)) of
              Inl e \<Rightarrow> Inl e
            | Inr j \<Rightarrow> format default_template [(''uniqueID'', ''Graph'' @ str_int h), (''JSONData'', j)])
       \<and> fst (html lib (class_obj hp3) fs h new (objects hp3 ! c)) =
           (case fst (json lib fs new (DotGraph_init p3 None)) of
              Inl e \<Rightarrow> Inl e
            | Inr j \<Rightarrow> format default_template [(''uniqueID'', ''Graph'' @ str_int h), (''JSONData'', j)]))"
  by (simp add: construct_def Let_def nth_append html_fst template_of_init DotGraph_cls_def
           split: sum.splits)

section \<open>The json property\<close>

text \<open>
  C6. An access to \<^verbatim>\<open>json\<close> changes the instance in the encoder field only. An instance
  without an encoder gets the object \<open>new\<close> made in that access; an instance that holds
  the encoder \<open>old\<close> keeps it, whatever object a call of the constructor would have
  returned, so a second access leaves the instance as the first one left it. The text is
  not kept: each access encodes the dictionary computed in that access, so after the file
  system has changed it returns the encoding of the new dictionary.
\<close>

theorem json_keeps_encoder_only:
  "snd (json lib fs new self) = self\<lparr>jenc := Some (case jenc self of None \<Rightarrow> new | Some e \<Rightarrow> e)\<rparr>
   \<and> jenc (snd (json lib fs new (self\<lparr>jenc := None\<rparr>))) = Some new
   \<and> jenc (snd (json lib fs new (self\<lparr>jenc := Some old\<rparr>))) = Some old
   \<and> snd (json lib fs' new' (snd (json lib fs new self))) = snd (json lib fs new self)
   \<and> fst (json lib fs new self) = (case dict lib fs self of Inl e \<Rightarrow> Inl e | Inr d \<Rightarrow> encode lib d)
   \<and> fst (json lib fs' new' (snd (json lib fs new self))) =
       (case dict lib fs' self of Inl e \<Rightarrow> Inl e | Inr d \<Rightarrow> encode lib d)"
  by (cases "jenc self") (simp_all add: json_fst json_snd dict_jenc)

section \<open>The html property\<close>




text \<open>
  C3, as stated for every instance, fails: a custom template need not mention
  \<^verbatim>\<open>JSONData\<close>. With the template \<^verbatim>\<open><p>no data</p>\<close> the mapping is ignored, \<^verbatim>\<open>html\<close> returns
  the template unchanged, and the JSON text is no part of it.
\<close>

theorem html_without_placeholder:
  \<open>fst (html sample_lib DotGraph_cls sample_fs 5 (JSONEncoder 0)
          (DotGraph_init ''g.dot'' (Some ''<p>no data</p>'')))
       = Inr ''<p>no data</p>''
   \<and> fst (json sample_lib sample_fs (JSONEncoder 0) (DotGraph_init ''g.dot'' (Some ''<p>no data</p>'')))
       = Inr ''{"dot": "digraph { A -> B; }"}''
   \<and> \<not> sublist ''{"dot": "digraph { A -> B; }"}'' ''<p>no data</p>''\<close>
proof -
  have \<open>\<not> sublist ''{"dot": "digraph { A -> B; }"}'' ''<p>no data</p>''\<close>
    using sublist_length_le by fastforce
  then show ?thesis
    by (simp add: html_fst sample_json template_of_init emit_def)
qed

text \<open>
  C3, amended. Whenever \<^verbatim>\<open>json\<close> returns the text \<open>j\<close>: for an instance whose template
  is made of literal text, \<^verbatim>\<open>%%\<close> and the two placeholders and has a \<^verbatim>\<open>%(JSONData)s\<close>
  placeholder, \<^verbatim>\<open>html\<close> returns the substituted template, and \<open>j\<close> stands verbatim in it;
  for an instance without a template of its own, \<open>j\<close> stands verbatim in the script
  block, between \<^verbatim>\<open>var graph = \<close> on the line after the opening tag and the semicolon.
\<close>

theorem html_embeds_json:
  assumes "fst (json lib fs new self) = Inr j"
  shows \<open>(list_all plain ps \<and> JSONData \<in> set ps \<and> template_of cls self = template_text ps \<longrightarrow>
            fst (html lib cls fs h new self) = Inr (substituted (''Graph'' @ str_int h) j ps)
            \<and> sublist j (substituted (''Graph'' @ str_int h) j ps))
        \<and> (own_template self = None \<longrightarrow>
            (\<exists>text. fst (html lib DotGraph_cls fs h new self) = Inr text
               \<and> sublist (''<script>\<newline>    var graph = '' @ j @ '';'') text))\<close>
proof (intro conjI impI)
  assume a: "list_all plain ps \<and> JSONData \<in> set ps \<and> template_of cls self = template_text ps"
  with assms show "fst (html lib cls fs h new self) = Inr (substituted (''Graph'' @ str_int h) j ps)"
    by (simp add: html_fst format_pieces)
  from a show "sublist j (substituted (''Graph'' @ str_int h) j ps)"
    by (simp add: sublist_substituted)
next
  assume none: "own_template self = None"
  let ?uid = "''Graph'' @ str_int h"
  let ?pre = "take 14 default_template @ ?uid @ take 222 (drop 26 default_template)"
  let ?post = "take 534 (drop 286 default_template) @ ?uid
          @ take 84 (drop 832 default_template) @ ?uid @ drop 928 default_template"
  let ?mid = \<open>''<script>\<newline>    var graph = '' @ j @ '';''\<close>
  from none have "template_of DotGraph_cls self = default_template"
    by (simp add: template_of_def DotGraph_cls_def)
  with assms have "fst (html lib DotGraph_cls fs h new self)
       = format default_template [(''uniqueID'', ?uid), (''JSONData'', j)]"
    by (simp add: html_fst)
  also have "\<dots> = Inr (?pre @ ?mid @ ?post)"
    by (simp only: format_default_template script_before script_after append_assoc)
  finally have "fst (html lib DotGraph_cls fs h new self) = Inr (?pre @ ?mid @ ?post)" .
  moreover have "sublist ?mid (?pre @ ?mid @ ?post)"
    by (rule sublist_appendI)
  ultimately show \<open>\<exists>text. fst (html lib DotGraph_cls fs h new self) = Inr text
               \<and> sublist (''<script>\<newline>    var graph = '' @ j @ '';'') text\<close>
    by blast
qed

text \<open>C3, amended, at a custom template and at the default template, over \<^verbatim>\<open>g.dot\<close>.\<close>

theorem html_embeds_json_witness:
  \<open>fst (json sample_lib sample_fs (JSONEncoder 0) (DotGraph_init ''g.dot'' (Some ''<pre>%(JSONData)s</pre>'')))
       = Inr ''{"dot": "digraph { A -> B; }"}''
   \<and> list_all plain [Lit ''<pre>'', JSONData, Lit ''</pre>'']
   \<and> JSONData \<in> set [Lit ''<pre>'', JSONData, Lit ''</pre>'']
   \<and> template_of DotGraph_cls (DotGraph_init ''g.dot'' (Some ''<pre>%(JSONData)s</pre>''))
       = template_text [Lit ''<pre>'', JSONData, Lit ''</pre>'']
   \<and> fst (html sample_lib DotGraph_cls sample_fs 5 (JSONEncoder 0)
           (DotGraph_init ''g.dot'' (Some ''<pre>%(JSONData)s</pre>'')))
       = Inr ''<pre>{"dot": "digraph { A -> B; }"}</pre>''
   \<and> sublist ''{"dot": "digraph { A -> B; }"}'' ''<pre>{"dot": "digraph { A -> B; }"}</pre>''
   \<and> fst (json sample_lib sample_fs (JSONEncoder 0) (DotGraph_init ''g.dot'' None))
       = Inr ''{"dot": "digraph { A -> B; }"}''
   \<and> own_template (DotGraph_init ''g.dot'' None) = None
   \<and> (\<exists>text. fst (html sample_lib DotGraph_cls sample_fs 5 (JSONEncoder 0) (DotGraph_init ''g.dot'' None))
                = Inr text
           \<and> sublist ''<script>\<newline>    var graph = {"dot": "digraph { A -> B; }"};'' text)\<close>
proof -
  let ?custom = \<open>DotGraph_init ''g.dot'' (Some ''<pre>%(JSONData)s</pre>'')\<close>
  let ?ps = \<open>[Lit ''<pre>'', JSONData, Lit ''</pre>'']\<close>
  let ?j = \<open>''{"dot": "digraph { A -> B; }"}''\<close>
  have j1: "fst (json sample_lib sample_fs (JSONEncoder 0) ?custom) = Inr ?j"
    by (rule sample_json)
  have j2: "fst (json sample_lib sample_fs (JSONEncoder 0) (DotGraph_init ''g.dot'' None)) = Inr ?j"
    by (rule sample_json)
  have p: "list_all plain ?ps \<and> JSONData \<in> set ?ps
             \<and> template_of DotGraph_cls ?custom = template_text ?ps"
    by (simp add: template_of_init template_text_def)
  have n: "own_template (DotGraph_init ''g.dot'' None) = None"
    by (simp add: DotGraph_init_def)
  from html_embeds_json [OF j1, of ?ps DotGraph_cls 5] p
  have c: "fst (html sample_lib DotGraph_cls sample_fs 5 (JSONEncoder 0) ?custom)
             = Inr (substituted (''Graph'' @ str_int 5) ?j ?ps)
           \<and> sublist ?j (substituted (''Graph'' @ str_int 5) ?j ?ps)"
    by blast
  from html_embeds_json [OF j2, of "[]" DotGraph_cls 5] n
  have d: \<open>\<exists>text. fst (html sample_lib DotGraph_cls sample_fs 5 (JSONEncoder 0) (DotGraph_init ''g.dot'' None))
                = Inr text
           \<and> sublist (''<script>\<newline>    var graph = '' @ ?j @ '';'') text\<close>
    by blast
  from c have c': \<open>fst (html sample_lib DotGraph_cls sample_fs 5 (JSONEncoder 0) ?custom)
             = Inr ''<pre>{"dot": "digraph { A -> B; }"}</pre>''
           \<and> sublist ?j ''<pre>{"dot": "digraph { A -> B; }"}</pre>''\<close>
    by (simp add: substituted_def)
  from d have d': \<open>\<exists>text. fst (html sample_lib DotGraph_cls sample_fs 5 (JSONEncoder 0) (DotGraph_init ''g.dot'' None))
                = Inr text
           \<and> sublist ''<script>\<newline>    var graph = {"dot": "digraph { A -> B; }"};'' text\<close>
    by simp
  from j1 j2 p n c' d' show ?thesis by blast
qed

text \<open>
  C4, as stated, fails: the identifier is a function of the clock alone. Two successive
  calls that read a clock value with the same hash (here 42) build the same
  \<^verbatim>\<open>uniqueID\<close>.
\<close>

theorem html_same_clock_same_uniqueID:
  \<open>fst (formatDict sample_lib sample_fs 42 (JSONEncoder 0) (DotGraph_init ''g.dot'' None))
     = Inr [(''uniqueID'', ''Graph42''), (''JSONData'', ''{"dot": "digraph { A -> B; }"}'')]
   \<and> fst (formatDict sample_lib sample_fs 42 (JSONEncoder 1)
            (snd (formatDict sample_lib sample_fs 42 (JSONEncoder 0) (DotGraph_init ''g.dot'' None))))
     = Inr [(''uniqueID'', ''Graph42''), (''JSONData'', ''{"dot": "digraph { A -> B; }"}'')]\<close>
  by (simp add: formatDict_fst formatDict_snd str_int_42 json_fst json_snd dict_jenc
                sample_json [unfolded json_fst])

text \<open>
  C4, amended. Two successive calls to \<^verbatim>\<open>html\<close> on the same file system format the same
  template with the same \<^verbatim>\<open>JSONData\<close> (or raise the same error); the \<^verbatim>\<open>uniqueID\<close> of a call
  is \<^verbatim>\<open>Graph\<close> followed by the decimal hash of the clock value read in that call, so the
  two identifiers differ exactly when the two hashes differ.
\<close>

theorem html_twice:
  "fst (html lib cls fs h1 new1 self) =
     (case fst (json lib fs new1 self) of
        Inl e \<Rightarrow> Inl e
      | Inr j \<Rightarrow> format (template_of cls self) [(''uniqueID'', ''Graph'' @ str_int h1), (''JSONData'', j)])
   \<and> fst (html lib cls fs h2 new2 (snd (html lib cls fs h1 new1 self))) =
     (case fst (json lib fs new1 self) of
        Inl e \<Rightarrow> Inl e
      | Inr j \<Rightarrow> format (template_of cls self) [(''uniqueID'', ''Graph'' @ str_int h2), (''JSONData'', j)])
   \<and> ((''Graph'' @ str_int h1 = ''Graph'' @ str_int h2) = (h1 = h2))"
proof -
  have "(''Graph'' @ str_int h1 = ''Graph'' @ str_int h2) = (h1 = h2)"
    using str_int_inj [of h1 h2] by auto
  then show ?thesis
    by (simp add: html_fst html_snd json_fst json_snd dict_jenc template_of_jenc split: sum.splits)
qed

section \<open>A missing input file on the command line\<close>

text \<open>
  C1, as stated, fails: the output file is opened for writing before \<^verbatim>\<open>dg.html\<close> is
  evaluated. With no file \<^verbatim>\<open>missing.dot\<close> and no file \<^verbatim>\<open>out.html\<close>, the process exits
  with status 1 and leaves an empty \<^verbatim>\<open>out.html\<close> behind.
\<close>

theorem main_missing_input_creates_output:
  "contents sample_fs (resolve sample_fs ''missing.dot'') = None
   \<and> contents sample_fs (resolve sample_fs ''out.html'') = None
   \<and> exit_status (main sample_lib 42 (JSONEncoder 0) sample_fs []
                    [''dotgraph.py'', ''missing.dot'', ''out.html'']) = 1
   \<and> contents (files (main sample_lib 42 (JSONEncoder 0) sample_fs []
                    [''dotgraph.py'', ''missing.dot'', ''out.html'']))
        (resolve sample_fs ''out.html'') = Some []"
proof -
  have "fst (html sample_lib DotGraph_cls
          (sample_fs\<lparr>contents := (contents sample_fs)(resolve sample_fs ''out.html'' \<mapsto> [])\<rparr>) 42
          (JSONEncoder 0) (DotGraph_init ''missing.dot'' None)) = Inl IOError"
    by (rule html_missing_input) (simp add: sample_fs_def DotGraph_init_def)
  then show ?thesis
    by (simp add: main_def open_w_def Let_def) (simp add: sample_fs_def)
qed

text \<open>
  C1, amended. When the input path names no file and the output path names another
  file than the input path does, the process exits with status 1, prints nothing, and
  writes no HTML: the output file is left empty (created, or emptied) when it can be
  opened for writing and untouched when it cannot; no other file changes.
\<close>

theorem main_missing_input:
  assumes "contents fs (resolve fs inpath) = None"
    and "resolve fs outfile \<noteq> resolve fs inpath"
  shows "exit_status (main lib h new fs out [prog, inpath, outfile]) = 1
    \<and> stdout (main lib h new fs out [prog, inpath, outfile]) = out
    \<and> files (main lib h new fs out [prog, inpath, outfile]) =
        (if resolve fs outfile \<in> set (readonly fs) then fs
         else fs\<lparr>contents := (contents fs)(resolve fs outfile \<mapsto> [])\<rparr>)"
proof (cases "resolve fs outfile \<in> set (readonly fs)")
  case True
  then show ?thesis by (simp add: main_def open_w_def)
next
  case False
  let ?fs' = "fs\<lparr>contents := (contents fs)(resolve fs outfile \<mapsto> [])\<rparr>"
  from assms have "contents ?fs' (resolve ?fs' (infile (DotGraph_init inpath None))) = None"
    by (simp add: DotGraph_init_def)
  then have "fst (html lib DotGraph_cls ?fs' h new (DotGraph_init inpath None)) = Inl IOError"
    by (rule html_missing_input)
  with False show ?thesis by (simp add: main_def open_w_def Let_def)
qed

text \<open>C1, amended, at the paths \<^verbatim>\<open>missing.dot\<close> and \<^verbatim>\<open>out.html\<close>.\<close>

theorem main_missing_input_witness:
  "contents sample_fs (resolve sample_fs ''missing.dot'') = None
   \<and> resolve sample_fs ''out.html'' \<noteq> resolve sample_fs ''missing.dot''
   \<and> exit_status (main sample_lib 42 (JSONEncoder 0) sample_fs []
                    [''dotgraph.py'', ''missing.dot'', ''out.html'']) = 1
   \<and> stdout (main sample_lib 42 (JSONEncoder 0) sample_fs []
                    [''dotgraph.py'', ''missing.dot'', ''out.html'']) = []
   \<and> files (main sample_lib 42 (JSONEncoder 0) sample_fs []
                    [''dotgraph.py'', ''missing.dot'', ''out.html''])
       = sample_fs\<lparr>contents := (contents sample_fs)(''out.html'' \<mapsto> [])\<rparr>"
proof -
  have a: "contents sample_fs (resolve sample_fs ''missing.dot'') = None"
    by (simp add: sample_fs_def)
  have b: "resolve sample_fs ''out.html'' \<noteq> resolve sample_fs ''missing.dot''"
    by (simp add: sample_fs_def)
  have c: "resolve sample_fs ''out.html'' \<notin> set (readonly sample_fs)"
    by (simp add: sample_fs_def)
  have d: "resolve sample_fs ''out.html'' = ''out.html''"
    by (simp add: sample_fs_def)
  from main_missing_input [OF a b, of sample_lib 42 "JSONEncoder 0" "[]" "''dotgraph.py''"] a b c d
  show ?thesis by simp
qed

text \<open>
  Two spellings of the input are outside the amended claim: \<^verbatim>\<open>./missing.dot\<close> names the
  file \<^verbatim>\<open>missing.dot\<close>, so opening it for writing creates the input, and what follows is
  the parser's answer to an empty file. With the stand-in, which accepts every text, the
  input exists afterwards.
\<close>

lemma main_alias_sample:
  "resolve sample_fs ''./missing.dot'' = resolve sample_fs ''missing.dot''
   \<and> contents (files (main sample_lib 42 (JSONEncoder 0) sample_fs []
                    [''dotgraph.py'', ''missing.dot'', ''./missing.dot''])) ''missing.dot'' \<noteq> None"
  by (simp add: main_def open_w_def fp_write_def Let_def html_fst json_fst dict_def graph_def
        DotGraph_init_def sample_fs_def sample_lib_def template_of_def DotGraph_cls_def
        format_default_template)

end
